theory Spec2Isabelle
  imports Main "HOL-Library.Word"
begin

unbundle bit_operations_syntax

section \<open>The Qualcomm SCM firmware call layer (drivers/firmware/qcom\_scm.c)\<close>

text \<open>
  The driver is modelled sequentially: every function takes the driver state and returns
  its C return value together with the new state. Calls into the rest of the kernel
  (the clock framework, the interconnect framework, the DMA allocator, the shared-memory
  bridge, the SMC back ends of qcom\_scm-smc.c and qcom\_scm-legacy.c) are not part of
  qcom\_scm.c; the values they return are read from an environment record, and every such
  call is appended to a log in program order, so that the order of calls can be stated.
  Mutexes and spinlocks guard single-threaded sections and are left out.
\<close>

type_synonym u8 = "8 word"
type_synonym u32 = "32 word"
type_synonym u64 = "64 word"

subsection \<open>Error numbers\<close>

definition EINVAL :: int where "EINVAL = 22"
definition ENOMEM :: int where "ENOMEM = 12"

subsection \<open>Data\<close>

text \<open>The three optional clocks of \<^verbatim>\<open>struct qcom_scm\<close>.\<close>

datatype clk = core_clk | iface_clk | bus_clk

text \<open>
  \<^verbatim>\<open>struct icc_path *path\<close>: a NULL pointer (no interconnect configured), an
  \<^verbatim>\<open>ERR_PTR\<close>, or a valid handle.
\<close>

datatype icc_path = PATH_NULL | PATH_ERR | PATH_VALID

datatype qcom_scm_convention =
    SMC_CONVENTION_UNKNOWN
  | SMC_CONVENTION_LEGACY
  | SMC_CONVENTION_ARM_32
  | SMC_CONVENTION_ARM_64

text \<open>Service and command identifiers, kept symbolic as the source names them.\<close>

datatype scm_svc = QCOM_SCM_SVC_INFO | QCOM_SCM_SVC_PIL | QCOM_SCM_SVC_MP | QCOM_SCM_SVC_ES

datatype scm_cmd =
    QCOM_SCM_INFO_IS_CALL_AVAIL
  | QCOM_SCM_PIL_PAS_INIT_IMAGE
  | QCOM_SCM_MP_ASSIGN
  | QCOM_SCM_ES_CONFIG_SET_ICE_KEY
  | QCOM_SCM_ES_DERIVE_SW_SECRET
  | QCOM_SCM_ES_GENERATE_ICE_KEY
  | QCOM_SCM_ES_PREPARE_ICE_KEY
  | QCOM_SCM_ES_IMPORT_ICE_KEY

text \<open>The argument type tags that \<^verbatim>\<open>QCOM_SCM_ARGS\<close> packs into \<^verbatim>\<open>arginfo\<close>.\<close>

datatype scm_arg_type = QCOM_SCM_VAL | QCOM_SCM_RO | QCOM_SCM_RW

record qcom_scm_desc =
  svc :: scm_svc
  cmd :: scm_cmd
  arginfo :: "scm_arg_type list"
  args :: "u64 list"

text \<open>
  Every call that leaves qcom\_scm.c, in program order. Buffers are named by their bus
  address. \<open>Memcpy_to b d\<close> is \<^verbatim>\<open>memcpy(b, src, n)\<close> with the \<open>n\<close> bytes \<open>d\<close>
  copied in; \<open>Memcpy_from b n\<close> is \<^verbatim>\<open>memcpy(dst, b, n)\<close>; \<open>Store_words a ws\<close>
  are the stores of the values \<open>ws\<close>, in order, into the fields that start at \<open>a\<close>.
\<close>

datatype event =
    Clk_prepare_enable clk int
  | Clk_disable_unprepare clk
  | Icc_set_bw u32 u32 int
  | Dev_err string
  | Pr_err string
  | Pr_info_convention qcom_scm_convention bool
  | Probe_smc_call qcom_scm_convention
  | Scm_smc_call qcom_scm_desc bool
  | Scm_legacy_call qcom_scm_desc
  | Scm_legacy_call_atomic qcom_scm_desc
  | Dma_alloc_coherent nat "u64 option"
  | Dma_free_coherent nat u64
  | Shmbridge_allocate_shm nat "u64 option"
  | Shmbridge_free_shm u64
  | Shmbridge_flush_shm_buf u64
  | Shmbridge_inv_shm_buf u64
  | Memcpy_to u64 "u8 list"
  | Memcpy_from u64 nat
  | Memset_zero u64 nat
  | Memzero_explicit u64 nat
  | Store_words u64 "u64 list"
  | Wait_for_completion
  | Complete

text \<open>
  The driver state: the enable count of each clock, the interconnect path handle, the
  bandwidth vote count (a C \<^verbatim>\<open>int\<close>, read with \<open>sint\<close>), the \<open>done\<close> counter of
  the completion \<^verbatim>\<open>waitq_comp\<close>, the global \<^verbatim>\<open>qcom_scm_convention\<close>, the buffers
  allocated and not yet freed, and the log.
\<close>

record kstate =
  core_en :: int
  iface_en :: int
  bus_en :: int
  path :: icc_path
  scm_vote_count :: u32
  waitq_comp :: nat
  convention :: qcom_scm_convention
  live :: "u64 list"
  log :: "event list"

text \<open>
  What the rest of the kernel and the firmware answer. \<open>probe_arm_64\<close> and
  \<open>probe_arm_32\<close> are the return value and \<^verbatim>\<open>res.result[0]\<close> of the two
  \<^verbatim>\<open>__scm_smc_call\<close> probes; \<open>smc_call_ret\<close> and \<open>legacy_call_ret\<close> those of
  \<^verbatim>\<open>scm_smc_call\<close> and \<^verbatim>\<open>scm_legacy_call\<close>; \<open>alloc_1st\<close> and \<open>alloc_2nd\<close> the bus
  address handed out by the first and second allocation of an operation (\<open>None\<close> when the
  allocation fails).
\<close>

record env =
  config_arm64 :: bool
  probe_arm_64 :: "int \<times> u64"
  probe_arm_32 :: "int \<times> u64"
  compatible_sc7180 :: bool
  clk_prepare_enable_ret :: "clk \<Rightarrow> int"
  icc_set_bw_ret :: int
  shmbridge_is_enabled :: bool
  alloc_1st :: "u64 option"
  alloc_2nd :: "u64 option"
  smc_call_ret :: "int \<times> u64"
  legacy_call_ret :: "int \<times> u64"

definition emit :: "event \<Rightarrow> kstate \<Rightarrow> kstate" where
  "emit ev s = s\<lparr>log := log s @ [ev]\<rparr>"

subsection \<open>Clocks\<close>

definition clk_add :: "clk \<Rightarrow> int \<Rightarrow> kstate \<Rightarrow> kstate" where
  "clk_add c d s =
     (case c of
        core_clk \<Rightarrow> s\<lparr>core_en := core_en s + d\<rparr>
      | iface_clk \<Rightarrow> s\<lparr>iface_en := iface_en s + d\<rparr>
      | bus_clk \<Rightarrow> s\<lparr>bus_en := bus_en s + d\<rparr>)"

text \<open>
  \<^verbatim>\<open>clk_prepare_enable\<close> of the clock framework: on return value 0 the clock's enable
  count went up by one, on any other value the clock is left as it was.
\<close>

definition clk_prepare_enable :: "env \<Rightarrow> clk \<Rightarrow> kstate \<Rightarrow> int \<times> kstate" where
  "clk_prepare_enable e c s =
     (let r = clk_prepare_enable_ret e c;
          s1 = emit (Clk_prepare_enable c r) s
      in (r, if r = 0 then clk_add c 1 s1 else s1))"

definition clk_disable_unprepare :: "clk \<Rightarrow> kstate \<Rightarrow> kstate" where
  "clk_disable_unprepare c s = clk_add c (- 1) (emit (Clk_disable_unprepare c) s)"

definition qcom_scm_clk_enable :: "env \<Rightarrow> kstate \<Rightarrow> int \<times> kstate" where
  "qcom_scm_clk_enable e s =
     (case clk_prepare_enable e core_clk s of (ret, s1) \<Rightarrow>
        if ret \<noteq> 0 then (ret, s1)
        else (case clk_prepare_enable e iface_clk s1 of (ret, s2) \<Rightarrow>
          if ret \<noteq> 0 then (ret, clk_disable_unprepare core_clk s2)
          else (case clk_prepare_enable e bus_clk s2 of (ret, s3) \<Rightarrow>
            if ret \<noteq> 0
            then (ret, clk_disable_unprepare core_clk (clk_disable_unprepare iface_clk s3))
            else (0, s3))))"

definition qcom_scm_clk_disable :: "kstate \<Rightarrow> kstate" where
  "qcom_scm_clk_disable s =
     clk_disable_unprepare bus_clk
       (clk_disable_unprepare iface_clk (clk_disable_unprepare core_clk s))"

subsection \<open>Bandwidth votes\<close>

text \<open>
  \<^verbatim>\<open>icc_set_bw(path, 0, UINT_MAX)\<close> answers with \<open>icc_set_bw_ret\<close>; the
  \<^verbatim>\<open>icc_set_bw(path, 0, 0)\<close> of the disable path has its return value ignored.
\<close>

definition qcom_scm_bw_enable :: "env \<Rightarrow> kstate \<Rightarrow> int \<times> kstate" where
  "qcom_scm_bw_enable e s =
     (if path s = PATH_NULL then (0, s)
      else if path s = PATH_ERR then (- EINVAL, s)
      else if scm_vote_count s = 0 then
        (let ret = icc_set_bw_ret e;
             s1 = emit (Icc_set_bw 0 (- 1) ret) s
         in if ret < 0
            then (ret, emit (Dev_err ''failed to set bandwidth request'') s1)
            else (ret, s1\<lparr>scm_vote_count := scm_vote_count s1 + 1\<rparr>))
      else (0, s\<lparr>scm_vote_count := scm_vote_count s + 1\<rparr>))"

definition qcom_scm_bw_disable :: "kstate \<Rightarrow> kstate" where
  "qcom_scm_bw_disable s =
     (if path s = PATH_NULL \<or> path s = PATH_ERR then s
      else
        (let old = scm_vote_count s;
             s1 = s\<lparr>scm_vote_count := old - 1\<rparr>
         in if old = 1 then emit (Icc_set_bw 0 0 0) s1 else s1))"

subsection \<open>Calling convention\<close>

text \<open>The label \<^verbatim>\<open>found:\<close> of \<^verbatim>\<open>__get_convention\<close>: publish, log on change, return the global.\<close>

definition found :: "qcom_scm_convention \<Rightarrow> bool \<Rightarrow> kstate \<Rightarrow> qcom_scm_convention \<times> kstate" where
  "found probed_convention forced s =
     (let s1 = (if probed_convention \<noteq> convention s
                then emit (Pr_info_convention probed_convention forced)
                       (s\<lparr>convention := probed_convention\<rparr>)
                else s)
      in (convention s1, s1))"

text \<open>The part of \<^verbatim>\<open>__get_convention\<close> after the \<^verbatim>\<open>#if IS_ENABLED(CONFIG_ARM64)\<close> block.\<close>

definition probe_arm_32_or_legacy :: "env \<Rightarrow> kstate \<Rightarrow> qcom_scm_convention \<times> kstate" where
  "probe_arm_32_or_legacy e s =
     (let s1 = emit (Probe_smc_call SMC_CONVENTION_ARM_32) s
      in if fst (probe_arm_32 e) = 0 \<and> snd (probe_arm_32 e) = 1
         then found SMC_CONVENTION_ARM_32 False s1
         else found SMC_CONVENTION_LEGACY False s1)"

text \<open>
  \<^verbatim>\<open>__get_convention\<close> (an Isabelle name cannot start with an underscore).
  \<open>compatible_sc7180\<close> is the answer of
  \<^verbatim>\<open>of_device_is_compatible(__scm ? __scm->dev->of_node : NULL, "qcom,scm-sc7180")\<close>.
\<close>

definition get_convention :: "env \<Rightarrow> kstate \<Rightarrow> qcom_scm_convention \<times> kstate" where
  "get_convention e s =
     (if convention s \<noteq> SMC_CONVENTION_UNKNOWN then (convention s, s)
      else if config_arm64 e then
        (let s1 = emit (Probe_smc_call SMC_CONVENTION_ARM_64) s
         in if fst (probe_arm_64 e) = 0 \<and> snd (probe_arm_64 e) = 1
            then found SMC_CONVENTION_ARM_64 False s1
            else if compatible_sc7180 e then found SMC_CONVENTION_ARM_64 True s1
            else probe_arm_32_or_legacy e s1)
      else probe_arm_32_or_legacy e s)"

subsection \<open>Call dispatch\<close>

text \<open>
  The back ends live in qcom\_scm-smc.c and qcom\_scm-legacy.c; here each is the logged call
  and the environment's answer: the return value and \<^verbatim>\<open>res->result[0]\<close>.
\<close>

definition scm_smc_call :: "env \<Rightarrow> qcom_scm_desc \<Rightarrow> bool \<Rightarrow> kstate \<Rightarrow> (int \<times> u64) \<times> kstate" where
  "scm_smc_call e desc atomic s = (smc_call_ret e, emit (Scm_smc_call desc atomic) s)"

definition scm_legacy_call :: "env \<Rightarrow> qcom_scm_desc \<Rightarrow> kstate \<Rightarrow> (int \<times> u64) \<times> kstate" where
  "scm_legacy_call e desc s = (legacy_call_ret e, emit (Scm_legacy_call desc) s)"

definition scm_legacy_call_atomic :: "env \<Rightarrow> qcom_scm_desc \<Rightarrow> kstate \<Rightarrow> (int \<times> u64) \<times> kstate" where
  "scm_legacy_call_atomic e desc s = (legacy_call_ret e, emit (Scm_legacy_call_atomic desc) s)"

text \<open>
  The \<^verbatim>\<open>switch\<close> statements of \<^verbatim>\<open>qcom_scm_call\<close> and \<^verbatim>\<open>qcom_scm_call_atomic\<close>, as
  functions of the value switched on. On the \<^verbatim>\<open>default:\<close> branch \<^verbatim>\<open>res\<close> is not
  written; the result word returned there is a placeholder that no caller reads, since
  callers look at \<^verbatim>\<open>res\<close> only when the return value is 0.
\<close>

definition qcom_scm_call_switch ::
  "env \<Rightarrow> qcom_scm_convention \<Rightarrow> qcom_scm_desc \<Rightarrow> kstate \<Rightarrow> (int \<times> u64) \<times> kstate" where
  "qcom_scm_call_switch e c desc s =
     (case c of
        SMC_CONVENTION_ARM_32 \<Rightarrow> scm_smc_call e desc False s
      | SMC_CONVENTION_ARM_64 \<Rightarrow> scm_smc_call e desc False s
      | SMC_CONVENTION_LEGACY \<Rightarrow> scm_legacy_call e desc s
      | SMC_CONVENTION_UNKNOWN \<Rightarrow>
          ((- EINVAL, 0), emit (Pr_err ''Unknown current SCM calling convention.'') s))"

definition qcom_scm_call_atomic_switch ::
  "env \<Rightarrow> qcom_scm_convention \<Rightarrow> qcom_scm_desc \<Rightarrow> kstate \<Rightarrow> (int \<times> u64) \<times> kstate" where
  "qcom_scm_call_atomic_switch e c desc s =
     (case c of
        SMC_CONVENTION_ARM_32 \<Rightarrow> scm_smc_call e desc True s
      | SMC_CONVENTION_ARM_64 \<Rightarrow> scm_smc_call e desc True s
      | SMC_CONVENTION_LEGACY \<Rightarrow> scm_legacy_call_atomic e desc s
      | SMC_CONVENTION_UNKNOWN \<Rightarrow>
          ((- EINVAL, 0), emit (Pr_err ''Unknown current SCM calling convention.'') s))"

definition qcom_scm_call :: "env \<Rightarrow> qcom_scm_desc \<Rightarrow> kstate \<Rightarrow> (int \<times> u64) \<times> kstate" where
  "qcom_scm_call e desc s =
     (case get_convention e s of (c, s1) \<Rightarrow> qcom_scm_call_switch e c desc s1)"

definition qcom_scm_call_atomic :: "env \<Rightarrow> qcom_scm_desc \<Rightarrow> kstate \<Rightarrow> (int \<times> u64) \<times> kstate" where
  "qcom_scm_call_atomic e desc s =
     (case get_convention e s of (c, s1) \<Rightarrow> qcom_scm_call_atomic_switch e c desc s1)"

text \<open>
  \<^verbatim>\<open>return ret ? : res.result[0];\<close> in a function returning \<^verbatim>\<open>int\<close>: the 64-bit result
  word is cut to its low 32 bits and read as signed.
\<close>

definition ret_or_result :: "int \<Rightarrow> u64 \<Rightarrow> int" where
  "ret_or_result ret r0 = (if ret \<noteq> 0 then ret else sint (ucast r0 :: u32))"

subsection \<open>Transport buffers\<close>

definition dma_alloc_coherent :: "u64 option \<Rightarrow> nat \<Rightarrow> kstate \<Rightarrow> u64 option \<times> kstate" where
  "dma_alloc_coherent r n s =
     (r, emit (Dma_alloc_coherent n r)
           (case r of None \<Rightarrow> s | Some a \<Rightarrow> s\<lparr>live := live s @ [a]\<rparr>))"

definition dma_free_coherent :: "nat \<Rightarrow> u64 \<Rightarrow> kstate \<Rightarrow> kstate" where
  "dma_free_coherent n a s = emit (Dma_free_coherent n a) (s\<lparr>live := remove1 a (live s)\<rparr>)"

text \<open>
  \<^verbatim>\<open>qtee_shmbridge_allocate_shm\<close> returns nonzero on failure (\<open>None\<close> here) and fills
  \<^verbatim>\<open>struct qtee_shm\<close> on success; the buffer is named by its \<^verbatim>\<open>paddr\<close>.
\<close>

definition qtee_shmbridge_allocate_shm :: "u64 option \<Rightarrow> nat \<Rightarrow> kstate \<Rightarrow> u64 option \<times> kstate" where
  "qtee_shmbridge_allocate_shm r n s =
     (r, emit (Shmbridge_allocate_shm n r)
           (case r of None \<Rightarrow> s | Some a \<Rightarrow> s\<lparr>live := live s @ [a]\<rparr>))"

definition qtee_shmbridge_free_shm :: "u64 \<Rightarrow> kstate \<Rightarrow> kstate" where
  "qtee_shmbridge_free_shm a s = emit (Shmbridge_free_shm a) (s\<lparr>live := remove1 a (live s)\<rparr>)"

subsection \<open>Peripheral authentication: image initialisation\<close>

text \<open>\<^verbatim>\<open>struct qcom_scm_pas_metadata\<close>; \<open>ptr = None\<close> is the NULL pointer.\<close>

record qcom_scm_pas_metadata =
  ptr :: "u64 option"
  phys :: u64
  size :: nat

text \<open>
  The code from the label \<^verbatim>\<open>out:\<close> of \<^verbatim>\<open>qcom_scm_pas_init_image\<close> on. \<open>ctx = None\<close> is a
  NULL \<^verbatim>\<open>ctx\<close>. When the label is reached from the failed clock enable, \<^verbatim>\<open>res\<close> has not
  been written; the result word passed then is not read, since \<open>ret\<close> is not 0.
\<close>

definition pas_init_image_out ::
  "int \<Rightarrow> u64 \<Rightarrow> nat \<Rightarrow> u64 \<Rightarrow> qcom_scm_pas_metadata option \<Rightarrow> kstate
     \<Rightarrow> int \<times> qcom_scm_pas_metadata option \<times> kstate" where
  "pas_init_image_out ret r0 sz mdata_phys ctx s =
     (if ret < 0 \<or> ctx = None
      then (ret_or_result ret r0, ctx, dma_free_coherent sz mdata_phys s)
      else (ret_or_result ret r0,
            Some \<lparr>ptr = Some mdata_phys, phys = mdata_phys, size = sz\<rparr>, s))"

definition qcom_scm_pas_init_image ::
  "env \<Rightarrow> u32 \<Rightarrow> u8 list \<Rightarrow> nat \<Rightarrow> qcom_scm_pas_metadata option \<Rightarrow> kstate
     \<Rightarrow> int \<times> qcom_scm_pas_metadata option \<times> kstate" where
  "qcom_scm_pas_init_image e peripheral metadata sz ctx s =
     (case dma_alloc_coherent (alloc_1st e) sz s of
        (None, s1) \<Rightarrow>
          (- ENOMEM, ctx, emit (Dev_err ''Allocation of metadata buffer failed.'') s1)
      | (Some mdata_phys, s1) \<Rightarrow>
          (let s2 = emit (Memcpy_to mdata_phys (take sz metadata)) s1
           in case qcom_scm_clk_enable e s2 of (ret, s3) \<Rightarrow>
             if ret \<noteq> 0 then pas_init_image_out ret 0 sz mdata_phys ctx s3
             else (case qcom_scm_bw_enable e s3 of (ret, s4) \<Rightarrow>
               if ret \<noteq> 0 then (ret, ctx, s4)
               else
                 (let desc = \<lparr>svc = QCOM_SCM_SVC_PIL, cmd = QCOM_SCM_PIL_PAS_INIT_IMAGE,
                               arginfo = [QCOM_SCM_VAL, QCOM_SCM_RW],
                               args = [ucast peripheral, mdata_phys]\<rparr>
                  in case qcom_scm_call e desc s4 of ((ret, r0), s5) \<Rightarrow>
                    pas_init_image_out ret r0 sz mdata_phys ctx
                      (qcom_scm_clk_disable (qcom_scm_bw_disable s5))))))"

definition qcom_scm_pas_metadata_release ::
  "qcom_scm_pas_metadata \<Rightarrow> kstate \<Rightarrow> qcom_scm_pas_metadata \<times> kstate" where
  "qcom_scm_pas_metadata_release ctx s =
     (case ptr ctx of
        None \<Rightarrow> (ctx, s)
      | Some p \<Rightarrow> (\<lparr>ptr = None, phys = 0, size = 0\<rparr>, dma_free_coherent (size ctx) (phys ctx) s))"

subsection \<open>Memory ownership reassignment\<close>

text \<open>\<^verbatim>\<open>struct qcom_scm_vmperm\<close>: two C \<^verbatim>\<open>int\<close>s, kept as their 32-bit patterns.\<close>

record qcom_scm_vmperm =
  vmid :: u32
  perm :: u32

text \<open>
  \<^verbatim>\<open>BIT(nr)\<close> is \<^verbatim>\<open>1UL << nr\<close> on a 64-bit \<^verbatim>\<open>unsigned long\<close>. C leaves a shift by 64 or
  more undefined; \<open>push_bit\<close> gives 0 there.
\<close>

definition BIT :: "nat \<Rightarrow> u64" where
  "BIT nr = push_bit nr 1"

definition hweight64 :: "u64 \<Rightarrow> nat" where
  "hweight64 w = length (filter (bit w) [0..<64])"

text \<open>\<^verbatim>\<open>ALIGN(x, SZ_64)\<close> on sizes.\<close>

definition ALIGN_64 :: "nat \<Rightarrow> nat" where
  "ALIGN_64 x = ((x + 63) div 64) * 64"

text \<open>The source vmid list: the loop over \<open>b = 0 .. 63\<close> storing every set bit's index.\<close>

definition fill_src :: "u64 \<Rightarrow> u32 list" where
  "fill_src srcvm_bits = map of_nat (filter (bit srcvm_bits) [0..<64])"

text \<open>
  The loop over the destination list. \<open>next_vm\<close> is a C \<^verbatim>\<open>int\<close>:
  \<^verbatim>\<open>next_vm |= BIT(newvm->vmid)\<close> widens it (with sign) to \<^verbatim>\<open>unsigned long\<close>, ors the
  bit in and cuts the result back to 32 bits.
\<close>

fun fill_dest :: "u32 \<Rightarrow> qcom_scm_vmperm list \<Rightarrow> u32" where
  "fill_dest next_vm [] = next_vm"
| "fill_dest next_vm (p # ps) =
     fill_dest (ucast ((scast next_vm :: u64) OR BIT (unat (vmid p)))) ps"

text \<open>What the same loop stores per entry: \<open>vmid\<close>, \<open>perm\<close>, \<open>ctx = 0\<close>, \<open>ctx_size = 0\<close>.\<close>

definition fill_dest_words :: "qcom_scm_vmperm list \<Rightarrow> u64 list" where
  "fill_dest_words ps = concat (map (\<lambda>p. [ucast (vmid p), ucast (perm p), 0, 0]) ps)"

text \<open>
  \<^verbatim>\<open>__qcom_scm_assign_mem\<close>: one call with the three bus addresses and sizes.
\<close>

definition qcom_scm_assign_mem_call ::
  "env \<Rightarrow> u64 \<Rightarrow> nat \<Rightarrow> u64 \<Rightarrow> nat \<Rightarrow> u64 \<Rightarrow> nat \<Rightarrow> kstate \<Rightarrow> int \<times> kstate" where
  "qcom_scm_assign_mem_call e mem_region mem_sz src src_sz dest dest_sz s =
     (let desc = \<lparr>svc = QCOM_SCM_SVC_MP, cmd = QCOM_SCM_MP_ASSIGN,
                   arginfo = [QCOM_SCM_RO, QCOM_SCM_VAL, QCOM_SCM_RO, QCOM_SCM_VAL,
                              QCOM_SCM_RO, QCOM_SCM_VAL, QCOM_SCM_VAL],
                   args = [mem_region, of_nat mem_sz, src, of_nat src_sz,
                           dest, of_nat dest_sz, 0]\<rparr>
      in case qcom_scm_call e desc s of ((ret, r0), s1) \<Rightarrow> (ret_or_result ret r0, s1))"

text \<open>
  \<^verbatim>\<open>qcom_scm_assign_mem\<close>. \<open>sizeof_mem_map\<close> and \<open>sizeof_perm_info\<close> are
  \<^verbatim>\<open>sizeof(struct qcom_scm_mem_map_info)\<close> and
  \<^verbatim>\<open>sizeof(struct qcom_scm_current_perm_info)\<close>, both declared in a header outside this
  file; \<^verbatim>\<open>sizeof(__le32)\<close> is 4. The caller's \<^verbatim>\<open>*srcvm\<close> is passed in and returned. The
  first \<open>dest_cnt\<close> entries of \<open>newvm\<close> are read.
\<close>

definition qcom_scm_assign_mem ::
  "env \<Rightarrow> nat \<Rightarrow> nat \<Rightarrow> u64 \<Rightarrow> nat \<Rightarrow> u64 \<Rightarrow> qcom_scm_vmperm list \<Rightarrow> nat \<Rightarrow> kstate
     \<Rightarrow> int \<times> u64 \<times> kstate" where
  "qcom_scm_assign_mem e sizeof_mem_map sizeof_perm_info mem_addr mem_sz srcvm newvm dest_cnt s =
     (let srcvm_bits = srcvm;
          src_sz = hweight64 srcvm_bits * 4;
          mem_to_map_sz = sizeof_mem_map;
          dest_sz = dest_cnt * sizeof_perm_info;
          ptr_sz = ALIGN_64 src_sz + ALIGN_64 mem_to_map_sz + ALIGN_64 dest_sz
      in case dma_alloc_coherent (alloc_1st e) ptr_sz s of
           (None, s1) \<Rightarrow> (- ENOMEM, srcvm, s1)
         | (Some ptr_phys, s1) \<Rightarrow>
             (let mem_to_map_phys = ptr_phys + of_nat (ALIGN_64 src_sz);
                  dest_phys = ptr_phys + of_nat (ALIGN_64 mem_to_map_sz) + of_nat (ALIGN_64 src_sz);
                  next_vm = fill_dest 0 (take dest_cnt newvm);
                  s1a = emit (Store_words ptr_phys (map ucast (fill_src srcvm_bits))) s1;
                  s1b = emit (Store_words mem_to_map_phys [mem_addr, of_nat mem_sz]) s1a;
                  s1c = emit (Store_words dest_phys (fill_dest_words (take dest_cnt newvm))) s1b
              in case qcom_scm_assign_mem_call e mem_to_map_phys mem_to_map_sz
                        ptr_phys src_sz dest_phys dest_sz s1c of
                   (ret, s2) \<Rightarrow>
                     (let s3 = dma_free_coherent ptr_sz ptr_phys s2
                      in if ret \<noteq> 0
                         then (- EINVAL, srcvm,
                               emit (Dev_err ''Assign memory protection call failed'') s3)
                         else (0, scast next_vm, s3))))"

subsection \<open>Wait queue\<close>

definition qcom_scm_assert_valid_wq_ctx :: "u32 \<Rightarrow> kstate \<Rightarrow> int \<times> kstate" where
  "qcom_scm_assert_valid_wq_ctx wq_ctx s =
     (if wq_ctx \<noteq> 0
      then (- EINVAL, emit (Dev_err ''Firmware unexpectedly passed non-zero wq_ctx'') s)
      else (0, s))"

text \<open>
  \<^verbatim>\<open>wait_for_completion\<close>: with the completion's \<open>done\<close> counter at zero the caller does
  not return in this state (\<open>None\<close>); otherwise it takes one unit and returns.
  \<^verbatim>\<open>complete\<close> adds one unit.
\<close>

definition wait_for_completion :: "kstate \<Rightarrow> kstate option" where
  "wait_for_completion s =
     (if waitq_comp s = 0 then None
      else Some (emit Wait_for_completion (s\<lparr>waitq_comp := waitq_comp s - 1\<rparr>)))"

definition complete :: "kstate \<Rightarrow> kstate" where
  "complete s = emit Complete (s\<lparr>waitq_comp := waitq_comp s + 1\<rparr>)"

definition qcom_scm_wait_for_wq_completion :: "u32 \<Rightarrow> kstate \<Rightarrow> (int \<times> kstate) option" where
  "qcom_scm_wait_for_wq_completion wq_ctx s =
     (case qcom_scm_assert_valid_wq_ctx wq_ctx s of (ret, s1) \<Rightarrow>
        if ret \<noteq> 0 then Some (ret, s1)
        else (case wait_for_completion s1 of
                None \<Rightarrow> None
              | Some s2 \<Rightarrow> Some (0, s2)))"

definition qcom_scm_waitq_wakeup :: "u32 \<Rightarrow> kstate \<Rightarrow> int \<times> kstate" where
  "qcom_scm_waitq_wakeup wq_ctx s =
     (case qcom_scm_assert_valid_wq_ctx wq_ctx s of (ret, s1) \<Rightarrow>
        if ret \<noteq> 0 then (ret, s1) else (0, complete s1))"

subsection \<open>Inline-encryption key operations\<close>

text \<open>
  Each operation has the shape of its source: a set-up part that allocates and marshals per
  back end and may return early (\<open>Inl\<close>), the call, the part run on success, and the code
  from the label \<^verbatim>\<open>exit:\<close> on. Sizes are byte counts; \<open>take n key\<close> are the \<open>n\<close>
  bytes \<^verbatim>\<open>memcpy\<close> reads.
\<close>

definition qcom_scm_ice_set_key ::
  "env \<Rightarrow> u32 \<Rightarrow> u8 list \<Rightarrow> nat \<Rightarrow> u32 \<Rightarrow> u32 \<Rightarrow> kstate \<Rightarrow> int \<times> kstate" where
  "qcom_scm_ice_set_key e index key key_size cipher data_unit_size s =
     (let use_qtee_shmbridge = shmbridge_is_enabled e;
          setup =
            (if use_qtee_shmbridge then
               (case qtee_shmbridge_allocate_shm (alloc_1st e) key_size s of
                  (None, s1) \<Rightarrow> Inl (- ENOMEM, emit (Pr_err ''smbridge allocate error'') s1)
                | (Some key_phys, s1) \<Rightarrow>
                    Inr (key_phys,
                         emit (Shmbridge_flush_shm_buf key_phys)
                           (emit (Memcpy_to key_phys (take key_size key)) s1)))
             else
               (case dma_alloc_coherent (alloc_1st e) key_size s of
                  (None, s1) \<Rightarrow> Inl (- ENOMEM, s1)
                | (Some key_phys, s1) \<Rightarrow>
                    Inr (key_phys, emit (Memcpy_to key_phys (take key_size key)) s1)))
      in case setup of
           Inl r \<Rightarrow> r
         | Inr (key_phys, s2) \<Rightarrow>
             (let desc = \<lparr>svc = QCOM_SCM_SVC_ES, cmd = QCOM_SCM_ES_CONFIG_SET_ICE_KEY,
                           arginfo = [QCOM_SCM_VAL, QCOM_SCM_RW, QCOM_SCM_VAL, QCOM_SCM_VAL,
                                      QCOM_SCM_VAL],
                           args = [ucast index, key_phys, of_nat key_size, ucast cipher,
                                   ucast data_unit_size]\<rparr>
              in case qcom_scm_call e desc s2 of ((ret, r0), s3) \<Rightarrow>
                (let s4 = (if ret \<noteq> 0 then emit (Pr_err ''scm call failed'') s3
                           else if use_qtee_shmbridge
                           then emit (Shmbridge_inv_shm_buf key_phys) s3
                           else emit (Memzero_explicit key_phys key_size) s3);
                     s5 = (if use_qtee_shmbridge then qtee_shmbridge_free_shm key_phys s4
                           else dma_free_coherent key_size key_phys s4)
                 in (ret, s5))))"

definition qcom_scm_derive_sw_secret ::
  "env \<Rightarrow> u8 list \<Rightarrow> nat \<Rightarrow> nat \<Rightarrow> kstate \<Rightarrow> int \<times> kstate" where
  "qcom_scm_derive_sw_secret e wkey wkey_size sw_secret_size s =
     (let use_qtee_shmbridge = shmbridge_is_enabled e;
          setup =
            (if use_qtee_shmbridge then
               (case qtee_shmbridge_allocate_shm (alloc_1st e) sw_secret_size s of
                  (None, s1) \<Rightarrow> Inl (- ENOMEM, emit (Pr_err ''smbridge allocate error'') s1)
                | (Some secret_phys, s1) \<Rightarrow>
                    (let s2 = emit (Shmbridge_flush_shm_buf secret_phys)
                                (emit (Memset_zero secret_phys sw_secret_size) s1)
                     in case qtee_shmbridge_allocate_shm (alloc_2nd e) wkey_size s2 of
                          (None, s3) \<Rightarrow>
                            Inl (- ENOMEM,
                                 emit (Pr_err ''smbridge allocate error'')
                                   (qtee_shmbridge_free_shm secret_phys s3))
                        | (Some wkey_phys, s3) \<Rightarrow>
                            Inr (wkey_phys, secret_phys,
                                 emit (Shmbridge_flush_shm_buf wkey_phys)
                                   (emit (Memcpy_to wkey_phys (take wkey_size wkey)) s3))))
             else
               (case dma_alloc_coherent (alloc_1st e) wkey_size s of
                  (None, s1) \<Rightarrow> Inl (- ENOMEM, s1)
                | (Some wkey_phys, s1) \<Rightarrow>
                    (case dma_alloc_coherent (alloc_2nd e) sw_secret_size s1 of
                       (None, s2) \<Rightarrow>
                         Inl (- ENOMEM,
                              dma_free_coherent wkey_size wkey_phys
                                (emit (Memzero_explicit wkey_phys wkey_size) s2))
                     | (Some secret_phys, s2) \<Rightarrow>
                         Inr (wkey_phys, secret_phys,
                              emit (Memcpy_to wkey_phys (take wkey_size wkey)) s2))))
      in case setup of
           Inl r \<Rightarrow> r
         | Inr (wkey_phys, secret_phys, s4) \<Rightarrow>
             (let desc = \<lparr>svc = QCOM_SCM_SVC_ES, cmd = QCOM_SCM_ES_DERIVE_SW_SECRET,
                           arginfo = [QCOM_SCM_RW, QCOM_SCM_VAL, QCOM_SCM_RW, QCOM_SCM_VAL],
                           args = [wkey_phys, of_nat wkey_size, secret_phys,
                                   of_nat sw_secret_size]\<rparr>
              in case qcom_scm_call e desc s4 of ((ret, r0), s5) \<Rightarrow>
                (let s6 = (if ret \<noteq> 0 then emit (Pr_err ''scm call failed'') s5
                           else if use_qtee_shmbridge
                           then emit (Shmbridge_inv_shm_buf wkey_phys)
                                  (emit (Memcpy_from secret_phys sw_secret_size)
                                     (emit (Shmbridge_inv_shm_buf secret_phys) s5))
                           else emit (Memcpy_from secret_phys sw_secret_size) s5);
                     s7 = (if use_qtee_shmbridge
                           then qtee_shmbridge_free_shm wkey_phys
                                  (qtee_shmbridge_free_shm secret_phys s6)
                           else dma_free_coherent wkey_size wkey_phys
                                  (emit (Memzero_explicit wkey_phys wkey_size)
                                     (dma_free_coherent sw_secret_size secret_phys
                                        (emit (Memzero_explicit secret_phys sw_secret_size) s6))))
                 in (ret, s7))))"



definition qcom_scm_import_ice_key ::
  "env \<Rightarrow> u8 list \<Rightarrow> nat \<Rightarrow> nat \<Rightarrow> kstate \<Rightarrow> int \<times> kstate" where
  "qcom_scm_import_ice_key e imp_key imp_key_size lt_key_size s =
     (let use_qtee_shmbridge = shmbridge_is_enabled e;
          setup =
            (if use_qtee_shmbridge then
               (case qtee_shmbridge_allocate_shm (alloc_1st e) imp_key_size s of
                  (None, s1) \<Rightarrow> Inl (- ENOMEM, emit (Pr_err ''smbridge allocate error'') s1)
                | (Some imp_key_phys, s1) \<Rightarrow>
                    (let s2 = emit (Shmbridge_flush_shm_buf imp_key_phys)
                                (emit (Memcpy_to imp_key_phys (take imp_key_size imp_key)) s1)
                     in case qtee_shmbridge_allocate_shm (alloc_2nd e) lt_key_size s2 of
                          (None, s3) \<Rightarrow>
                            Inl (- ENOMEM,
                                 emit (Pr_err ''smbridge allocate error'')
                                   (qtee_shmbridge_free_shm imp_key_phys s3))
                        | (Some lt_key_phys, s3) \<Rightarrow>
                            Inr (imp_key_phys, lt_key_phys,
                                 emit (Shmbridge_flush_shm_buf lt_key_phys)
                                   (emit (Memset_zero lt_key_phys lt_key_size) s3))))
             else
               (case dma_alloc_coherent (alloc_1st e) imp_key_size s of
                  (None, s1) \<Rightarrow> Inl (- ENOMEM, s1)
                | (Some imp_key_phys, s1) \<Rightarrow>
                    (case dma_alloc_coherent (alloc_2nd e) lt_key_size s1 of
                       (None, s2) \<Rightarrow>
                         Inl (- ENOMEM,
                              dma_free_coherent imp_key_size imp_key_phys
                                (emit (Memzero_explicit imp_key_phys imp_key_size) s2))
                     | (Some lt_key_phys, s2) \<Rightarrow>
                         Inr (imp_key_phys, lt_key_phys,
                              emit (Memcpy_to imp_key_phys (take imp_key_size imp_key)) s2))))
      in case setup of
           Inl r \<Rightarrow> r
         | Inr (imp_key_phys, lt_key_phys, s4) \<Rightarrow>
             (let desc = \<lparr>svc = QCOM_SCM_SVC_ES, cmd = QCOM_SCM_ES_IMPORT_ICE_KEY,
                           arginfo = [QCOM_SCM_RO, QCOM_SCM_VAL, QCOM_SCM_RW, QCOM_SCM_VAL],
                           args = [imp_key_phys, of_nat imp_key_size, lt_key_phys,
                                   of_nat lt_key_size]\<rparr>
              in case qcom_scm_call e desc s4 of ((ret, r0), s5) \<Rightarrow>
                (let s6 = (if ret \<noteq> 0 then emit (Pr_err ''scm call failed'') s5
                           else if use_qtee_shmbridge
                           then emit (Shmbridge_inv_shm_buf imp_key_phys)
                                  (emit (Memcpy_from lt_key_phys lt_key_size)
                                     (emit (Shmbridge_inv_shm_buf lt_key_phys) s5))
                           else emit (Memcpy_from lt_key_phys lt_key_size) s5);
                     s7 = (if use_qtee_shmbridge
                           then qtee_shmbridge_free_shm lt_key_phys
                                  (qtee_shmbridge_free_shm imp_key_phys s6)
                           else dma_free_coherent imp_key_size imp_key_phys
                                  (emit (Memzero_explicit imp_key_phys imp_key_size)
                                     (dma_free_coherent lt_key_size lt_key_phys
                                        (emit (Memzero_explicit lt_key_phys lt_key_size) s6))))
                 in (ret, s7))))"

section \<open>Properties of logs and call sequences\<close>

subsection \<open>Key material in transport buffers\<close>

text \<open>The buffers a call hands to the firmware for writing: the arguments tagged \<open>QCOM_SCM_RW\<close>.\<close>

definition rw_buffers :: "qcom_scm_desc \<Rightarrow> u64 list" where
  "rw_buffers d = map snd (filter (\<lambda>p. fst p = QCOM_SCM_RW) (zip (arginfo d) (args d)))"

text \<open>
  One step of the scan of a log for key material. The state is, for every buffer that is
  allocated, its size in bytes, and the set of buffers that hold key material and have not
  been wiped since; it is \<open>None\<close> once such a buffer has been handed back to its
  allocator. A buffer takes key material when at least one byte of the caller's is copied
  into it, or when it has room for at least one byte and the firmware is given it for
  writing. \<^verbatim>\<open>memzero_explicit(b, n)\<close> wipes \<open>b\<close> only when \<open>n\<close> covers the whole
  allocation; a shorter wipe, and a plain \<^verbatim>\<open>memset\<close> (which the compiler may remove),
  leave the buffer as it is.
\<close>

definition wipe_covers :: "(u64 \<rightharpoonup> nat) \<Rightarrow> u64 \<Rightarrow> nat \<Rightarrow> bool" where
  "wipe_covers sz b n = (case sz b of None \<Rightarrow> False | Some m \<Rightarrow> m \<le> n)"

definition written_by_firmware :: "(u64 \<rightharpoonup> nat) \<Rightarrow> qcom_scm_desc \<Rightarrow> u64 list" where
  "written_by_firmware sz desc = filter (\<lambda>b. sz b \<noteq> Some 0) (rw_buffers desc)"

fun wipe_step ::
  "((u64 \<rightharpoonup> nat) \<times> u64 set) option \<Rightarrow> event \<Rightarrow> ((u64 \<rightharpoonup> nat) \<times> u64 set) option" where
  "wipe_step None ev = None"
| "wipe_step (Some (sz, d)) (Dma_alloc_coherent n (Some b)) = Some (sz(b \<mapsto> n), d)"
| "wipe_step (Some (sz, d)) (Shmbridge_allocate_shm n (Some b)) = Some (sz(b \<mapsto> n), d)"
| "wipe_step (Some (sz, d)) (Memcpy_to b x) = Some (sz, if x = [] then d else insert b d)"
| "wipe_step (Some (sz, d)) (Scm_smc_call desc atomic) =
     Some (sz, set (written_by_firmware sz desc) \<union> d)"
| "wipe_step (Some (sz, d)) (Scm_legacy_call desc) =
     Some (sz, set (written_by_firmware sz desc) \<union> d)"
| "wipe_step (Some (sz, d)) (Scm_legacy_call_atomic desc) =
     Some (sz, set (written_by_firmware sz desc) \<union> d)"
| "wipe_step (Some (sz, d)) (Memzero_explicit b n) =
     Some (sz, if wipe_covers sz b n then d - {b} else d)"
| "wipe_step (Some (sz, d)) (Dma_free_coherent n b) =
     (if b \<in> d then None else Some (sz(b := None), d))"
| "wipe_step (Some (sz, d)) (Shmbridge_free_shm b) =
     (if b \<in> d then None else Some (sz(b := None), d))"
| "wipe_step (Some (sz, d)) ev = Some (sz, d)"

definition key_material :: "event list \<Rightarrow> ((u64 \<rightharpoonup> nat) \<times> u64 set) option" where
  "key_material evs = foldl wipe_step (Some (Map.empty, {})) evs"

text \<open>No buffer holding key material was released unwiped anywhere in the log.\<close>

definition secret_wiped :: "event list \<Rightarrow> bool" where
  "secret_wiped evs = (key_material evs \<noteq> None)"


subsection \<open>Allocation before marshalling\<close>

text \<open>
  No allocation is attempted once caller data has been copied into a buffer; the flag says
  whether a copy has been seen.
\<close>

fun allocs_before_marshal :: "bool \<Rightarrow> event list \<Rightarrow> bool" where
  "allocs_before_marshal m [] = True"
| "allocs_before_marshal m (Memcpy_to b x # evs) = allocs_before_marshal True evs"
| "allocs_before_marshal m (Dma_alloc_coherent n r # evs) = (\<not> m \<and> allocs_before_marshal m evs)"
| "allocs_before_marshal m (Shmbridge_allocate_shm n r # evs) =
     (\<not> m \<and> allocs_before_marshal m evs)"
| "allocs_before_marshal m (ev # evs) = allocs_before_marshal m evs"

subsection \<open>Sequences of bandwidth calls\<close>





subsection \<open>A concrete platform\<close>

text \<open>
  A 64-bit platform whose firmware answers the ARM\_64 probe, with a valid interconnect
  path, every clock and allocation succeeding and every call returning 0; and the state
  after probing it, with no clock enabled, no vote held and an empty log.
\<close>

definition env0 :: env where
  "env0 = \<lparr>config_arm64 = True, probe_arm_64 = (0, 1), probe_arm_32 = (0, 1),
            compatible_sc7180 = False, clk_prepare_enable_ret = (\<lambda>c. 0),
            icc_set_bw_ret = 0, shmbridge_is_enabled = False,
            alloc_1st = Some 0x1000, alloc_2nd = Some 0x2000,
            smc_call_ret = (0, 0), legacy_call_ret = (0, 0)\<rparr>"

definition state0 :: kstate where
  "state0 = \<lparr>core_en = 0, iface_en = 0, bus_en = 0, path = PATH_VALID,
              scm_vote_count = 0, waitq_comp = 0, convention = SMC_CONVENTION_ARM_64,
              live = [], log = []\<rparr>"

section \<open>Theorems\<close>

lemmas clk_defs = qcom_scm_clk_enable_def qcom_scm_clk_disable_def clk_prepare_enable_def
  clk_disable_unprepare_def clk_add_def emit_def

lemmas conv_defs = get_convention_def probe_arm_32_or_legacy_def found_def emit_def

lemmas call_defs = qcom_scm_call_def qcom_scm_call_switch_def scm_smc_call_def
  scm_legacy_call_def

lemmas bw_defs = qcom_scm_bw_enable_def qcom_scm_bw_disable_def

lemmas buf_defs = dma_alloc_coherent_def dma_free_coherent_def qtee_shmbridge_allocate_shm_def
  qtee_shmbridge_free_shm_def

lemmas assign_defs = qcom_scm_assign_mem_def qcom_scm_assign_mem_call_def
  dma_alloc_coherent_def dma_free_coherent_def

subsection \<open>Clock gating\<close>

text \<open>
  Claim C4. \<^verbatim>\<open>qcom_scm_clk_enable\<close> enables the core clock, then the interface clock,
  then the bus clock. A stage that fails ends the sequence: the stages enabled before it
  are disabled again, in reverse order, and the failing stage's error is returned, so the
  enable counts are what they were before the call; only the log has grown. In particular
  a failure of the bus stage on a fresh state leaves no clock enabled. When all three
  stages succeed each count has gone up by one and 0 is returned.
\<close>

theorem qcom_scm_clk_enable_rollback:
  "qcom_scm_clk_enable e s =
     (let rc = clk_prepare_enable_ret e core_clk;
          ri = clk_prepare_enable_ret e iface_clk;
          rb = clk_prepare_enable_ret e bus_clk
      in if rc \<noteq> 0 then (rc, s\<lparr>log := log s @ [Clk_prepare_enable core_clk rc]\<rparr>)
         else if ri \<noteq> 0 then
           (ri, s\<lparr>log := log s @ [Clk_prepare_enable core_clk 0, Clk_prepare_enable iface_clk ri,
                                  Clk_disable_unprepare core_clk]\<rparr>)
         else if rb \<noteq> 0 then
           (rb, s\<lparr>log := log s @ [Clk_prepare_enable core_clk 0, Clk_prepare_enable iface_clk 0,
                                  Clk_prepare_enable bus_clk rb,
                                  Clk_disable_unprepare iface_clk,
                                  Clk_disable_unprepare core_clk]\<rparr>)
         else
           (0, s\<lparr>core_en := core_en s + 1, iface_en := iface_en s + 1, bus_en := bus_en s + 1,
                 log := log s @ [Clk_prepare_enable core_clk 0, Clk_prepare_enable iface_clk 0,
                                 Clk_prepare_enable bus_clk 0]\<rparr>))"
  by (simp add: clk_defs Let_def)

subsection \<open>Convention negotiation\<close>

text \<open>
  Claim C5. \<^verbatim>\<open>__get_convention\<close> is a total function and never returns
  \<open>SMC_CONVENTION_UNKNOWN\<close>. With a convention already cached it returns it and leaves
  the state (and so the log of probes) untouched. Otherwise, on a 64-bit build it probes
  ARM\_64 and adopts it when the probe returns 0 with first result word 1; failing that it
  adopts ARM\_64 as forced when the device is the sc7180 variant; otherwise (and on a
  32-bit build at once) it probes ARM\_32 and adopts it on the same answer; otherwise it
  adopts LEGACY. The choice is stored in the global and logged with the forced flag. A
  second call, whatever the environment would answer, returns the same value and state.
\<close>

theorem get_convention_resolves:
  "get_convention e s =
     (if convention s \<noteq> SMC_CONVENTION_UNKNOWN then (convention s, s)
      else if config_arm64 e \<and> probe_arm_64 e = (0, 1) then
        (SMC_CONVENTION_ARM_64,
         s\<lparr>convention := SMC_CONVENTION_ARM_64,
           log := log s @ [Probe_smc_call SMC_CONVENTION_ARM_64,
                           Pr_info_convention SMC_CONVENTION_ARM_64 False]\<rparr>)
      else if config_arm64 e \<and> compatible_sc7180 e then
        (SMC_CONVENTION_ARM_64,
         s\<lparr>convention := SMC_CONVENTION_ARM_64,
           log := log s @ [Probe_smc_call SMC_CONVENTION_ARM_64,
                           Pr_info_convention SMC_CONVENTION_ARM_64 True]\<rparr>)
      else if probe_arm_32 e = (0, 1) then
        (SMC_CONVENTION_ARM_32,
         s\<lparr>convention := SMC_CONVENTION_ARM_32,
           log := log s @ (if config_arm64 e then [Probe_smc_call SMC_CONVENTION_ARM_64] else [])
                        @ [Probe_smc_call SMC_CONVENTION_ARM_32,
                           Pr_info_convention SMC_CONVENTION_ARM_32 False]\<rparr>)
      else
        (SMC_CONVENTION_LEGACY,
         s\<lparr>convention := SMC_CONVENTION_LEGACY,
           log := log s @ (if config_arm64 e then [Probe_smc_call SMC_CONVENTION_ARM_64] else [])
                        @ [Probe_smc_call SMC_CONVENTION_ARM_32,
                           Pr_info_convention SMC_CONVENTION_LEGACY False]\<rparr>))
   \<and> fst (get_convention e s) \<noteq> SMC_CONVENTION_UNKNOWN
   \<and> convention (snd (get_convention e s)) = fst (get_convention e s)
   \<and> get_convention e' (snd (get_convention e s)) = get_convention e s"
  by (cases "probe_arm_64 e"; cases "probe_arm_32 e") (simp add: conv_defs Let_def)

subsection \<open>Dispatch on the convention\<close>

lemma get_convention_not_unknown: "fst (get_convention e s) \<noteq> SMC_CONVENTION_UNKNOWN"
  by (simp add: conv_defs Let_def)

text \<open>
  The \<^verbatim>\<open>default:\<close> branch of either switch, taken by itself: it logs an error and answers
  \<open>-EINVAL\<close> without calling a back end.
\<close>

lemma default_branch_einval:
  "qcom_scm_call_switch e SMC_CONVENTION_UNKNOWN desc s =
     ((- EINVAL, 0), s\<lparr>log := log s @ [Pr_err ''Unknown current SCM calling convention.'']\<rparr>)
   \<and> qcom_scm_call_atomic_switch e SMC_CONVENTION_UNKNOWN desc s =
     ((- EINVAL, 0), s\<lparr>log := log s @ [Pr_err ''Unknown current SCM calling convention.'']\<rparr>)"
  by (simp add: qcom_scm_call_switch_def qcom_scm_call_atomic_switch_def emit_def)

text \<open>
  Claim C6, as stated, fails: with the global \<^verbatim>\<open>qcom_scm_convention\<close> still
  \<open>SMC_CONVENTION_UNKNOWN\<close> and a firmware that answers neither probe affirmatively,
  \<^verbatim>\<open>qcom_scm_call\<close> and \<^verbatim>\<open>qcom_scm_call_atomic\<close> do not return \<open>-EINVAL\<close>: each
  resolves the convention to LEGACY, dispatches the call through the legacy back end and
  returns its result, 0.
\<close>

theorem qcom_scm_call_unknown_global_counterexample:
  "convention (state0\<lparr>convention := SMC_CONVENTION_UNKNOWN\<rparr>) = SMC_CONVENTION_UNKNOWN
   \<and> qcom_scm_call (env0\<lparr>probe_arm_64 := (0, 0), probe_arm_32 := (0, 0)\<rparr>)
        \<lparr>svc = QCOM_SCM_SVC_INFO, cmd = QCOM_SCM_INFO_IS_CALL_AVAIL,
         arginfo = [QCOM_SCM_VAL], args = [0]\<rparr>
        (state0\<lparr>convention := SMC_CONVENTION_UNKNOWN\<rparr>) =
      ((0, 0),
       state0\<lparr>convention := SMC_CONVENTION_LEGACY,
         log := [Probe_smc_call SMC_CONVENTION_ARM_64, Probe_smc_call SMC_CONVENTION_ARM_32,
                 Pr_info_convention SMC_CONVENTION_LEGACY False,
                 Scm_legacy_call
                   \<lparr>svc = QCOM_SCM_SVC_INFO, cmd = QCOM_SCM_INFO_IS_CALL_AVAIL,
                    arginfo = [QCOM_SCM_VAL], args = [0]\<rparr>]\<rparr>)
   \<and> qcom_scm_call_atomic (env0\<lparr>probe_arm_64 := (0, 0), probe_arm_32 := (0, 0)\<rparr>)
        \<lparr>svc = QCOM_SCM_SVC_INFO, cmd = QCOM_SCM_INFO_IS_CALL_AVAIL,
         arginfo = [QCOM_SCM_VAL], args = [0]\<rparr>
        (state0\<lparr>convention := SMC_CONVENTION_UNKNOWN\<rparr>) =
      ((0, 0),
       state0\<lparr>convention := SMC_CONVENTION_LEGACY,
         log := [Probe_smc_call SMC_CONVENTION_ARM_64, Probe_smc_call SMC_CONVENTION_ARM_32,
                 Pr_info_convention SMC_CONVENTION_LEGACY False,
                 Scm_legacy_call_atomic
                   \<lparr>svc = QCOM_SCM_SVC_INFO, cmd = QCOM_SCM_INFO_IS_CALL_AVAIL,
                    arginfo = [QCOM_SCM_VAL], args = [0]\<rparr>]\<rparr>)
   \<and> - EINVAL \<noteq> 0"
  by (simp add: qcom_scm_call_def qcom_scm_call_atomic_def qcom_scm_call_switch_def
      qcom_scm_call_atomic_switch_def scm_legacy_call_def scm_legacy_call_atomic_def conv_defs
      env0_def state0_def Let_def EINVAL_def)

text \<open>
  Claim C6, amended. \<^verbatim>\<open>qcom_scm_call\<close> and \<^verbatim>\<open>qcom_scm_call_atomic\<close> never fail on an
  unknown convention. Each first calls \<^verbatim>\<open>__get_convention\<close>, which resolves a global that
  is still \<open>SMC_CONVENTION_UNKNOWN\<close>, and then dispatches under the value returned:
  through the legacy back end for LEGACY, through the SMC back end (blocking or atomic)
  otherwise. The return value is the back end's, the log grows by that one back-end call
  after whatever \<^verbatim>\<open>__get_convention\<close> logged, and the global is resolved afterwards. The
  \<^verbatim>\<open>default:\<close> branch with its \<open>-EINVAL\<close> is never taken.
\<close>

theorem qcom_scm_call_resolves_then_dispatches:
  "qcom_scm_call e desc s =
     (case get_convention e s of (c, s1) \<Rightarrow>
        if c = SMC_CONVENTION_LEGACY
        then (legacy_call_ret e, s1\<lparr>log := log s1 @ [Scm_legacy_call desc]\<rparr>)
        else (smc_call_ret e, s1\<lparr>log := log s1 @ [Scm_smc_call desc False]\<rparr>))
   \<and> qcom_scm_call_atomic e desc s =
     (case get_convention e s of (c, s1) \<Rightarrow>
        if c = SMC_CONVENTION_LEGACY
        then (legacy_call_ret e, s1\<lparr>log := log s1 @ [Scm_legacy_call_atomic desc]\<rparr>)
        else (smc_call_ret e, s1\<lparr>log := log s1 @ [Scm_smc_call desc True]\<rparr>))
   \<and> convention (snd (qcom_scm_call e desc s)) \<noteq> SMC_CONVENTION_UNKNOWN
   \<and> convention (snd (qcom_scm_call_atomic e desc s)) \<noteq> SMC_CONVENTION_UNKNOWN"
proof -
  obtain c s1 where g: "get_convention e s = (c, s1)" by (cases "get_convention e s")
  have c: "c \<noteq> SMC_CONVENTION_UNKNOWN"
    using get_convention_not_unknown [of e s] g by simp
  have k: "convention s1 = c"
    using g by (cases "probe_arm_64 e"; cases "probe_arm_32 e")
      (auto simp add: conv_defs Let_def split: if_splits)
  show ?thesis
    using c k
    by (cases c)
       (simp_all add: qcom_scm_call_def qcom_scm_call_atomic_def g qcom_scm_call_switch_def
          qcom_scm_call_atomic_switch_def scm_smc_call_def scm_legacy_call_def
          scm_legacy_call_atomic_def emit_def)
qed

subsection \<open>Waiting on the wait queue\<close>

text \<open>
  Claim C9. For every \<open>wq_ctx\<close> other than 0, \<^verbatim>\<open>qcom_scm_wait_for_wq_completion\<close>
  returns \<open>-EINVAL\<close> at once: it logs the error and never reaches
  \<^verbatim>\<open>wait_for_completion\<close>. For \<open>wq_ctx = 0\<close> it does not return while the completion
  holds no wake, and returns 0 taking one wake otherwise. \<^verbatim>\<open>qcom_scm_waitq_wakeup\<close>,
  which the interrupt handler calls, delivers a wake exactly for \<open>wq_ctx = 0\<close>, and a
  wait that follows such a wake returns 0.
\<close>

theorem wait_for_wq_completion_cases:
  "qcom_scm_wait_for_wq_completion wq_ctx s =
     (if wq_ctx \<noteq> 0
      then Some (- EINVAL,
                 s\<lparr>log := log s @ [Dev_err ''Firmware unexpectedly passed non-zero wq_ctx'']\<rparr>)
      else if waitq_comp s = 0 then None
      else Some (0, s\<lparr>waitq_comp := waitq_comp s - 1, log := log s @ [Wait_for_completion]\<rparr>))
   \<and> waitq_comp (snd (qcom_scm_waitq_wakeup wq_ctx s)) =
       (if wq_ctx = 0 then waitq_comp s + 1 else waitq_comp s)
   \<and> qcom_scm_wait_for_wq_completion 0 (snd (qcom_scm_waitq_wakeup 0 s)) =
       Some (0, s\<lparr>log := log s @ [Complete, Wait_for_completion]\<rparr>)"
  by (simp add: qcom_scm_wait_for_wq_completion_def qcom_scm_assert_valid_wq_ctx_def
      wait_for_completion_def qcom_scm_waitq_wakeup_def complete_def emit_def EINVAL_def)

subsection \<open>Memory ownership reassignment\<close>

text \<open>
  Claim C10. When the buffer was allocated and the assign call, issued with the addresses
  and sizes \<^verbatim>\<open>qcom_scm_assign_mem\<close> computes, returns anything other than 0,
  \<^verbatim>\<open>qcom_scm_assign_mem\<close> returns \<open>-EINVAL\<close>, whatever the call's own error code, and
  the caller's \<^verbatim>\<open>*srcvm\<close> is what it was. Here \<open>s1\<close> is the state in which the call is
  issued: after the allocation and the three groups of stores.
\<close>

theorem assign_mem_failure_keeps_srcvm:
  assumes "alloc_1st e = Some ptr_phys"
    and "src_sz = hweight64 srcvm * 4"
    and "dest_sz = dest_cnt * sizeof_perm_info"
    and "ptr_sz = ALIGN_64 src_sz + ALIGN_64 sizeof_mem_map + ALIGN_64 dest_sz"
    and "s1 = emit (Store_words (ptr_phys + of_nat (ALIGN_64 sizeof_mem_map) + of_nat (ALIGN_64 src_sz))
                      (fill_dest_words (take dest_cnt newvm)))
               (emit (Store_words (ptr_phys + of_nat (ALIGN_64 src_sz)) [mem_addr, of_nat mem_sz])
                 (emit (Store_words ptr_phys (map ucast (fill_src srcvm)))
                   (snd (dma_alloc_coherent (Some ptr_phys) ptr_sz s))))"
    and "fst (qcom_scm_assign_mem_call e (ptr_phys + of_nat (ALIGN_64 src_sz)) sizeof_mem_map
                ptr_phys src_sz
                (ptr_phys + of_nat (ALIGN_64 sizeof_mem_map) + of_nat (ALIGN_64 src_sz))
                dest_sz s1) \<noteq> 0"
  shows "fst (qcom_scm_assign_mem e sizeof_mem_map sizeof_perm_info mem_addr mem_sz srcvm
                newvm dest_cnt s) = - EINVAL
       \<and> fst (snd (qcom_scm_assign_mem e sizeof_mem_map sizeof_perm_info mem_addr mem_sz srcvm
                newvm dest_cnt s)) = srcvm"
  using assms
  by (simp add: qcom_scm_assign_mem_def dma_alloc_coherent_def Let_def case_prod_beta)

text \<open>
  The theorem at a concrete input: the firmware call returns \<open>-5\<close>, the current owners are
  \<open>{0, 3}\<close> (bitmask 9); the result is \<open>-EINVAL\<close> and the bitmask is still 9.
\<close>

theorem assign_mem_failure_keeps_srcvm_witness:
  "fst (qcom_scm_assign_mem (env0\<lparr>smc_call_ret := (- 5, 0)\<rparr>) 16 24 0x80000000 0x1000 9
          [\<lparr>vmid = 5, perm = 6\<rparr>] 1 state0) = - EINVAL
   \<and> fst (snd (qcom_scm_assign_mem (env0\<lparr>smc_call_ret := (- 5, 0)\<rparr>) 16 24 0x80000000 0x1000 9
          [\<lparr>vmid = 5, perm = 6\<rparr>] 1 state0)) = 9"
  using assign_mem_failure_keeps_srcvm [of "env0\<lparr>smc_call_ret := (- 5, 0)\<rparr>" "0x1000" _ 9 _ 1 24 _ 16
      _ "[\<lparr>vmid = 5, perm = 6\<rparr>]" "0x80000000" "0x1000" state0, OF _ refl refl refl refl]
  by (simp add: env0_def state0_def qcom_scm_assign_mem_call_def call_defs conv_defs
      ret_or_result_def Let_def dma_alloc_coherent_def)

text \<open>
  Claim C7. On success \<^verbatim>\<open>*srcvm\<close> is to be the OR of \<^verbatim>\<open>BIT(vmid)\<close> over the
  destination list. The accumulator \<^verbatim>\<open>next_vm\<close> is a 32-bit \<^verbatim>\<open>int\<close>, so the code
  evaluated on the platform \<open>env0\<close> gives: for the destination \<open>vmid = 32\<close> a successful
  return with \<^verbatim>\<open>*srcvm = 0\<close>, where \<open>BIT 32\<close> is \<open>0x100000000\<close>; for \<open>vmid = 31\<close> the
  sign-extended \<open>0xFFFFFFFF80000000\<close>, where \<open>BIT 31\<close> is \<open>0x80000000\<close>; and for the
  specification's example, owners \<open>{0, 3}\<close> and destination \<open>vmid = 5\<close>, the expected
  \<open>0x20\<close>.
\<close>

theorem assign_mem_high_vmid_truncated:
  "qcom_scm_assign_mem env0 16 24 0x80000000 0x1000 9 [\<lparr>vmid = 32, perm = 6\<rparr>] 1 state0 =
     (0, 0,
      state0\<lparr>log := [Dma_alloc_coherent 192 (Some 0x1000), Store_words 0x1000 [0, 3],
                     Store_words 0x1040 [0x80000000, 0x1000], Store_words 0x1080 [32, 6, 0, 0],
                     Scm_smc_call
                       \<lparr>svc = QCOM_SCM_SVC_MP, cmd = QCOM_SCM_MP_ASSIGN,
                        arginfo = [QCOM_SCM_RO, QCOM_SCM_VAL, QCOM_SCM_RO, QCOM_SCM_VAL,
                                   QCOM_SCM_RO, QCOM_SCM_VAL, QCOM_SCM_VAL],
                        args = [0x1040, 16, 0x1000, 8, 0x1080, 24, 0]\<rparr> False,
                     Dma_free_coherent 192 0x1000]\<rparr>)
   \<and> BIT 32 = 0x100000000
   \<and> fst (snd (qcom_scm_assign_mem env0 16 24 0x80000000 0x1000 9
                  [\<lparr>vmid = 31, perm = 6\<rparr>] 1 state0)) = 0xFFFFFFFF80000000
   \<and> BIT 31 = 0x80000000
   \<and> fst (snd (qcom_scm_assign_mem env0 16 24 0x80000000 0x1000 9
                  [\<lparr>vmid = 5, perm = 6\<rparr>] 1 state0)) = 0x20
   \<and> BIT 5 = 0x20"
  apply (simp add: assign_defs call_defs conv_defs env0_def state0_def Let_def ret_or_result_def
      BIT_def)
  apply (simp add: hweight64_def ALIGN_64_def fill_src_def fill_dest_words_def upt_rec)
  done

subsection \<open>Peripheral image initialisation\<close>

text \<open>
  Claim C3. A failure of \<^verbatim>\<open>qcom_scm_pas_init_image\<close> is to leave no clock enabled, no
  vote held and no buffer allocated. The code evaluated where the clocks come up and
  \<^verbatim>\<open>icc_set_bw\<close> then answers \<open>-22\<close>: the error is returned at once, with the three
  clocks still enabled, the metadata buffer at \<open>0x1000\<close> still allocated and not recorded
  in the context, and neither \<^verbatim>\<open>clk_disable_unprepare\<close> nor \<^verbatim>\<open>dma_free_coherent\<close> in the
  log.
\<close>

theorem pas_init_image_bw_failure_leaks:
  "qcom_scm_pas_init_image (env0\<lparr>icc_set_bw_ret := - 22\<rparr>) 1 [0x7F, 0x45] 2
     (Some \<lparr>ptr = None, phys = 0, size = 0\<rparr>) state0 =
   (- 22, Some \<lparr>ptr = None, phys = 0, size = 0\<rparr>,
    state0\<lparr>core_en := 1, iface_en := 1, bus_en := 1, live := [0x1000],
      log := [Dma_alloc_coherent 2 (Some 0x1000), Memcpy_to 0x1000 [0x7F, 0x45],
              Clk_prepare_enable core_clk 0, Clk_prepare_enable iface_clk 0,
              Clk_prepare_enable bus_clk 0, Icc_set_bw 0 (- 1) (- 22),
              Dev_err ''failed to set bandwidth request'']\<rparr>)"
  by (simp add: qcom_scm_pas_init_image_def env0_def state0_def buf_defs clk_defs bw_defs)

subsection \<open>Key operations with two buffers\<close>

text \<open>
  The direct back end of the same operation at the same input: both allocations come first,
  and the first buffer is wiped before it is freed.
\<close>

lemma import_ice_key_direct_second_alloc_fails:
  "qcom_scm_import_ice_key (env0\<lparr>alloc_2nd := None\<rparr>) [0x2A, 0x2B] 2 4 state0 =
   (- ENOMEM,
    state0\<lparr>log := [Dma_alloc_coherent 2 (Some 0x1000), Dma_alloc_coherent 4 None,
                   Memzero_explicit 0x1000 2, Dma_free_coherent 2 0x1000]\<rparr>)"
  by (simp add: qcom_scm_import_ice_key_def env0_def state0_def buf_defs emit_def Let_def)

text \<open>
  The bridged back end of \<^verbatim>\<open>qcom_scm_derive_sw_secret\<close> at the same input: the first
  buffer is the output buffer, zero-filled, and the wrapped key is not copied before the
  second allocation.
\<close>

lemma derive_sw_secret_bridged_second_alloc_fails:
  "qcom_scm_derive_sw_secret (env0\<lparr>shmbridge_is_enabled := True, alloc_2nd := None\<rparr>)
     [0x2A, 0x2B] 2 4 state0 =
   (- ENOMEM,
    state0\<lparr>log := [Shmbridge_allocate_shm 4 (Some 0x1000), Memset_zero 0x1000 4,
                   Shmbridge_flush_shm_buf 0x1000, Shmbridge_allocate_shm 2 None,
                   Shmbridge_free_shm 0x1000, Pr_err ''smbridge allocate error'']\<rparr>)"
  by (simp add: qcom_scm_derive_sw_secret_def env0_def state0_def buf_defs emit_def Let_def)

text \<open>
  Claim C8. Every two-buffer key operation is to allocate both buffers before it copies
  caller data into either, and to zero and free the first when the second allocation
  fails. \<^verbatim>\<open>qcom_scm_import_ice_key\<close> evaluated on the bridged back end with the second
  allocation failing: the raw key is copied into the first buffer and flushed before the
  second allocation is attempted, and on the failure the first buffer is freed with the
  key still in it; \<open>-ENOMEM\<close> is returned and no buffer stays allocated.
\<close>

theorem import_ice_key_bridged_marshals_early:
  "qcom_scm_import_ice_key (env0\<lparr>shmbridge_is_enabled := True, alloc_2nd := None\<rparr>)
     [0x2A, 0x2B] 2 4 state0 =
   (- ENOMEM,
    state0\<lparr>log := [Shmbridge_allocate_shm 2 (Some 0x1000), Memcpy_to 0x1000 [0x2A, 0x2B],
                   Shmbridge_flush_shm_buf 0x1000, Shmbridge_allocate_shm 4 None,
                   Shmbridge_free_shm 0x1000, Pr_err ''smbridge allocate error'']\<rparr>)
   \<and> \<not> allocs_before_marshal False
         [Shmbridge_allocate_shm 2 (Some 0x1000), Memcpy_to 0x1000 [0x2A, 0x2B],
          Shmbridge_flush_shm_buf 0x1000, Shmbridge_allocate_shm 4 None,
          Shmbridge_free_shm 0x1000, Pr_err ''smbridge allocate error'']
   \<and> \<not> secret_wiped
         [Shmbridge_allocate_shm 2 (Some 0x1000), Memcpy_to 0x1000 [0x2A, 0x2B],
          Shmbridge_flush_shm_buf 0x1000, Shmbridge_allocate_shm 4 None,
          Shmbridge_free_shm 0x1000, Pr_err ''smbridge allocate error'']"
  by (simp add: qcom_scm_import_ice_key_def env0_def state0_def buf_defs emit_def Let_def
      secret_wiped_def key_material_def)

subsection \<open>Bandwidth vote count\<close>










subsection \<open>Wiping of key buffers\<close>








lemma fst_alloc [simp]:
  "fst (dma_alloc_coherent r n s) = r" "fst (qtee_shmbridge_allocate_shm r n s) = r"
  by (simp_all add: dma_alloc_coherent_def qtee_shmbridge_allocate_shm_def)



















text \<open>
  The direct back end of \<^verbatim>\<open>qcom_scm_ice_set_key\<close> when the call fails: the code jumps to
  \<^verbatim>\<open>exit:\<close> past \<^verbatim>\<open>memzero_explicit\<close> and frees the buffer with the key in it.
\<close>

lemma ice_set_key_direct_call_failure_unwiped:
  "qcom_scm_ice_set_key (env0\<lparr>smc_call_ret := (- 5, 0)\<rparr>) 0 [0x2A, 0x2B] 2 0 8 state0 =
   (- 5,
    state0\<lparr>log := [Dma_alloc_coherent 2 (Some 0x1000), Memcpy_to 0x1000 [0x2A, 0x2B],
                   Scm_smc_call
                     \<lparr>svc = QCOM_SCM_SVC_ES, cmd = QCOM_SCM_ES_CONFIG_SET_ICE_KEY,
                      arginfo = [QCOM_SCM_VAL, QCOM_SCM_RW, QCOM_SCM_VAL, QCOM_SCM_VAL,
                                 QCOM_SCM_VAL],
                      args = [0, 0x1000, 2, 0, 8]\<rparr> False,
                   Pr_err ''scm call failed'', Dma_free_coherent 2 0x1000]\<rparr>)
   \<and> \<not> secret_wiped
         (log (snd (qcom_scm_ice_set_key (env0\<lparr>smc_call_ret := (- 5, 0)\<rparr>) 0 [0x2A, 0x2B] 2 0 8
                      state0)))"
  by (simp add: qcom_scm_ice_set_key_def env0_def state0_def buf_defs call_defs conv_defs Let_def
      secret_wiped_def key_material_def rw_buffers_def written_by_firmware_def emit_def)




end
